theory Spec2Isabelle
  imports Complex_Main "HOL-Library.Word"
begin

section \<open>Numbers of the program\<close>

text \<open>
  The program computes with IEEE doubles (pandas and numpy in Python, numbers in
  JavaScript) and, on a column of integers, with 64-bit integers. A double is a finite
  value, an infinity or NaN; a finite double is held as the real number it denotes, and
  negative zero is not told apart from zero. In the statistics engine the result of an
  operation on finite values is the exact result, an infinity when it is beyond the range
  of the doubles: rounding to 53 bits is left out there (and with it the order in which
  numpy adds). The one division of the results table is rounded to the nearest double,
  since the numeral shown depends on it. Integers are 64-bit words and wrap.
\<close>

datatype double = Fin real | PInf | NInf | NaN

text \<open>
  A result from \<open>2\<^sup>1\<^sup>0\<^sup>2\<^sup>4 - 2\<^sup>9\<^sup>7\<^sup>0\<close> on in magnitude (half a unit in the last place
  above the greatest double) overflows.
\<close>

definition finite_or_inf :: "real \<Rightarrow> double" where
  "finite_or_inf x =
     (if 2 ^ 1024 - 2 ^ 970 \<le> x then PInf
      else if x \<le> - (2 ^ 1024 - 2 ^ 970) then NInf
      else Fin x)"

fun d_neg :: "double \<Rightarrow> double" where
  "d_neg (Fin x) = Fin (- x)"
| "d_neg PInf = NInf"
| "d_neg NInf = PInf"
| "d_neg NaN = NaN"

fun d_add :: "double \<Rightarrow> double \<Rightarrow> double" where
  "d_add (Fin a) (Fin b) = finite_or_inf (a + b)"
| "d_add NaN _ = NaN"
| "d_add _ NaN = NaN"
| "d_add PInf NInf = NaN"
| "d_add NInf PInf = NaN"
| "d_add PInf _ = PInf"
| "d_add _ PInf = PInf"
| "d_add NInf _ = NInf"
| "d_add _ NInf = NInf"

definition d_sub :: "double \<Rightarrow> double \<Rightarrow> double" where
  "d_sub a b = d_add a (d_neg b)"

text \<open>The sign of a product with an infinity; zero times an infinity is NaN.\<close>

definition inf_times :: "bool \<Rightarrow> real \<Rightarrow> double" where
  "inf_times positive x =
     (if x = 0 then NaN else if (0 < x) = positive then PInf else NInf)"

fun d_mul :: "double \<Rightarrow> double \<Rightarrow> double" where
  "d_mul (Fin a) (Fin b) = finite_or_inf (a * b)"
| "d_mul NaN _ = NaN"
| "d_mul _ NaN = NaN"
| "d_mul PInf (Fin b) = inf_times True b"
| "d_mul NInf (Fin b) = inf_times False b"
| "d_mul (Fin a) PInf = inf_times True a"
| "d_mul (Fin a) NInf = inf_times False a"
| "d_mul PInf PInf = PInf"
| "d_mul PInf NInf = NInf"
| "d_mul NInf PInf = NInf"
| "d_mul NInf NInf = PInf"

fun d_sqrt :: "double \<Rightarrow> double" where
  "d_sqrt (Fin x) = (if x < 0 then NaN else Fin (sqrt x))"
| "d_sqrt PInf = PInf"
| "d_sqrt NInf = NaN"
| "d_sqrt NaN = NaN"

text \<open>The comparison \<open>a <= b\<close>, false when one side is NaN.\<close>

fun d_le :: "double \<Rightarrow> double \<Rightarrow> bool" where
  "d_le NaN _ = False"
| "d_le _ NaN = False"
| "d_le NInf _ = True"
| "d_le _ PInf = True"
| "d_le PInf _ = False"
| "d_le _ NInf = False"
| "d_le (Fin a) (Fin b) = (a \<le> b)"

definition d_max :: "double \<Rightarrow> double \<Rightarrow> double" where
  "d_max a b = (if d_le a b then b else a)"

definition d_min :: "double \<Rightarrow> double \<Rightarrow> double" where
  "d_min a b = (if d_le b a then b else a)"

text \<open>A sum divided by the number of its terms; \<open>0 / 0\<close> is NaN.\<close>

fun d_div_count :: "double \<Rightarrow> nat \<Rightarrow> double" where
  "d_div_count (Fin s) n = (if n = 0 then NaN else finite_or_inf (s / real n))"
| "d_div_count PInf n = PInf"
| "d_div_count NInf n = NInf"
| "d_div_count NaN n = NaN"

definition of_int64 :: "64 word \<Rightarrow> double" where
  "of_int64 w = Fin (real_of_int (sint w))"


section \<open>Statistics engine\<close>

subsection \<open>Columns and series\<close>

text \<open>
  A cell of a column as pandas reads it: an integer (within 64 bits), a floating-point
  number, or anything \<^verbatim>\<open>pd.to_numeric(..., errors='coerce')\<close> turns into NaN (text,
  a missing value).
\<close>

datatype cell = Int_cell "64 word" | Float_cell double | Text_cell

text \<open>
  A numeric series has the type \<^verbatim>\<open>int64\<close> when every cell of the column is an
  integer, and \<^verbatim>\<open>float64\<close> otherwise.
\<close>

datatype series = Int64 "64 word list" | Float64 "double list"

fun int_cells :: "cell list \<Rightarrow> 64 word list option" where
  "int_cells [] = Some []"
| "int_cells (Int_cell w # cells) = map_option (\<lambda>ws. w # ws) (int_cells cells)"
| "int_cells (_ # cells) = None"

fun float_cells :: "cell list \<Rightarrow> double list" where
  "float_cells [] = []"
| "float_cells (Int_cell w # cells) = of_int64 w # float_cells cells"
| "float_cells (Float_cell NaN # cells) = float_cells cells"
| "float_cells (Float_cell x # cells) = x # float_cells cells"
| "float_cells (Text_cell # cells) = float_cells cells"

text \<open>
  \<^verbatim>\<open>pd.to_numeric(series, errors='coerce').dropna()\<close>: the cells that are numbers, in
  their order; an infinity is a number and stays.
\<close>

definition to_numeric_dropna :: "cell list \<Rightarrow> series" where
  "to_numeric_dropna cells =
     (case int_cells cells of Some ws \<Rightarrow> Int64 ws | None \<Rightarrow> Float64 (float_cells cells))"

fun as_float64 :: "series \<Rightarrow> double list" where
  "as_float64 (Int64 ws) = map of_int64 ws"
| "as_float64 (Float64 xs) = xs"

text \<open>\<^verbatim>\<open>len(s)\<close> and \<^verbatim>\<open>s.empty\<close>\<close>

fun len :: "series \<Rightarrow> nat" where
  "len (Int64 ws) = length ws"
| "len (Float64 xs) = length xs"

definition empty_series :: "series \<Rightarrow> bool" where
  "empty_series s = (len s = 0)"

text \<open>\<^verbatim>\<open>s**2\<close>: on an \<^verbatim>\<open>int64\<close> series the squares are 64-bit integers and wrap.\<close>

fun squared :: "series \<Rightarrow> series" where
  "squared (Int64 ws) = Int64 (map (\<lambda>w. w * w) ws)"
| "squared (Float64 xs) = Float64 (map (\<lambda>x. d_mul x x) xs)"

subsection \<open>Library functions the source calls\<close>

text \<open>
  The reductions of a series, as numpy hands them to pandas: the integers are converted to
  doubles first. \<^verbatim>\<open>np.mean\<close> adds the samples and divides by their number;
  \<^verbatim>\<open>np.std\<close> (called with its default \<^verbatim>\<open>ddof=0\<close>) is the square root of the
  mean of \<^verbatim>\<open>(avg - x)**2\<close>; \<^verbatim>\<open>np.max\<close> and \<^verbatim>\<open>np.min\<close> take the greatest
  and the least sample. On an empty series each of them is NaN.
\<close>

definition np_sum :: "double list \<Rightarrow> double" where
  "np_sum xs = foldl d_add (Fin 0) xs"

definition np_mean :: "series \<Rightarrow> double" where
  "np_mean s = (let xs = as_float64 s in d_div_count (np_sum xs) (length xs))"

definition np_sqrt :: "double \<Rightarrow> double" where
  "np_sqrt x = d_sqrt x"

definition np_std :: "series \<Rightarrow> double" where
  "np_std s =
     (let xs = as_float64 s;
          avg = d_div_count (np_sum xs) (length xs);
          sqr = map (\<lambda>x. d_mul (d_sub avg x) (d_sub avg x)) xs
      in d_sqrt (d_div_count (np_sum sqr) (length xs)))"

definition np_max :: "series \<Rightarrow> double" where
  "np_max s = (case as_float64 s of [] \<Rightarrow> NaN | x # xs \<Rightarrow> foldl d_max x xs)"

definition np_min :: "series \<Rightarrow> double" where
  "np_min s = (case as_float64 s of [] \<Rightarrow> NaN | x # xs \<Rightarrow> foldl d_min x xs)"

text \<open>Sorting, by insertion; the series holds no NaN.\<close>

fun insort_double :: "double \<Rightarrow> double list \<Rightarrow> double list" where
  "insort_double x [] = [x]"
| "insort_double x (y # ys) = (if d_le x y then x # y # ys else y # insort_double x ys)"

definition sort_double :: "double list \<Rightarrow> double list" where
  "sort_double xs = foldr insort_double xs []"

text \<open>
  numpy's \<^verbatim>\<open>_lerp(a, b, t)\<close> with \<^verbatim>\<open>diff_b_a = b - a\<close>:
  \<^verbatim>\<open>a + diff_b_a * t\<close>, replaced by \<^verbatim>\<open>b - diff_b_a * (1 - t)\<close> where
  \<^verbatim>\<open>t >= 0.5\<close>.
\<close>

definition lerp :: "double \<Rightarrow> double \<Rightarrow> double \<Rightarrow> real \<Rightarrow> double" where
  "lerp a b diff_b_a t =
     (if t \<ge> 1 / 2 then d_sub b (d_mul diff_b_a (Fin (1 - t)))
      else d_add a (d_mul diff_b_a (Fin t)))"

text \<open>
  \<^verbatim>\<open>np.percentile(a, q)\<close> with its default method, linear interpolation, for
  \<open>0 \<le> q \<le> 100\<close> and a series that is not empty: the samples are sorted, the virtual
  index of the percentile is \<open>(n - 1) * (q / 100)\<close>, and the result interpolates between
  the two order statistics around it, the upper index clipped to the last position. On
  an \<^verbatim>\<open>int64\<close> series the difference \<^verbatim>\<open>b - a\<close> is a 64-bit integer.
\<close>

definition np_percentile :: "series \<Rightarrow> real \<Rightarrow> double" where
  "np_percentile a q =
     (let n = len a;
          virtual_index = real (n - 1) * (q / 100);
          previous_index = nat \<lfloor>virtual_index\<rfloor>;
          next_index = min (previous_index + 1) (n - 1);
          gamma = virtual_index - real previous_index
      in if n = 0 then NaN
         else
           case a of
             Float64 xs \<Rightarrow>
               let arr = sort_double xs;
                   previous = arr ! previous_index;
                   next = arr ! next_index
               in lerp previous next (d_sub next previous) gamma
           | Int64 ws \<Rightarrow>
               let arr = sort_key sint ws;
                   previous = arr ! previous_index;
                   next = arr ! next_index
               in lerp (of_int64 previous) (of_int64 next) (of_int64 (next - previous)) gamma)"

subsection \<open>calculate_statistics of emg_web_report.py\<close>

record StatBundle =
  RMS :: double
  Mean :: double
  Std :: double
  Max_stat :: double
  Min_stat :: double
  Count :: int
  RMS_filtered :: double
  Mean_filtered :: double
  Std_filtered :: double
  Max_filtered :: double
  Min_filtered :: double
  Count_filtered :: int
  Outliers_removed :: int

text \<open>
  The boolean series \<^verbatim>\<open>(s >= lower) & (s <= upper)\<close> used as an index keeps the
  samples for which it holds, in their order; the kept series has the type of \<open>s\<close>.
\<close>

fun boolean_index :: "(double \<Rightarrow> bool) \<Rightarrow> series \<Rightarrow> series" where
  "boolean_index keep (Int64 ws) = Int64 (filter (\<lambda>w. keep (of_int64 w)) ws)"
| "boolean_index keep (Float64 xs) = Float64 (filter keep xs)"

definition filtered_series :: "series \<Rightarrow> series" where
  "filtered_series numeric_series =
     (let lower_percentile = np_percentile numeric_series 2.5;
          upper_percentile = np_percentile numeric_series 97.5
      in boolean_index (\<lambda>x. d_le lower_percentile x \<and> d_le x upper_percentile) numeric_series)"

definition calculate_statistics :: "cell list \<Rightarrow> bool \<Rightarrow> StatBundle" where
  "calculate_statistics series remove_outliers =
     (let numeric_series = to_numeric_dropna series in
      if empty_series numeric_series then
        \<lparr>RMS = Fin 0, Mean = Fin 0, Std = Fin 0, Max_stat = Fin 0, Min_stat = Fin 0,
         Count = 0,
         RMS_filtered = Fin 0, Mean_filtered = Fin 0, Std_filtered = Fin 0,
         Max_filtered = Fin 0, Min_filtered = Fin 0, Count_filtered = 0,
         Outliers_removed = 0\<rparr>
      else
        let o_RMS = np_sqrt (np_mean (squared numeric_series));
            o_Mean = np_mean numeric_series;
            o_Std = np_std numeric_series;
            o_Max = np_max numeric_series;
            o_Min = np_min numeric_series;
            o_Count = int (len numeric_series)
        in
        if remove_outliers \<and> len numeric_series > 20 then
          let filtered = filtered_series numeric_series;
              outliers_removed = int (len numeric_series) - int (len filtered)
          in \<lparr>RMS = o_RMS, Mean = o_Mean, Std = o_Std, Max_stat = o_Max,
              Min_stat = o_Min, Count = o_Count,
              RMS_filtered = np_sqrt (np_mean (squared filtered)),
              Mean_filtered = np_mean filtered,
              Std_filtered = np_std filtered,
              Max_filtered = np_max filtered,
              Min_filtered = np_min filtered,
              Count_filtered = int (len filtered),
              Outliers_removed = outliers_removed\<rparr>
        else
          \<lparr>RMS = o_RMS, Mean = o_Mean, Std = o_Std, Max_stat = o_Max,
           Min_stat = o_Min, Count = o_Count,
           RMS_filtered = o_RMS, Mean_filtered = o_Mean, Std_filtered = o_Std,
           Max_filtered = o_Max, Min_filtered = o_Min, Count_filtered = o_Count,
           Outliers_removed = 0\<rparr>)"

subsection \<open>calculate_rms and calculate_statistics of emg_analysis_improved.py\<close>

definition calculate_rms :: "cell list \<Rightarrow> double" where
  "calculate_rms series =
     (let numeric_series = to_numeric_dropna series in
      if empty_series numeric_series then Fin 0
      else np_sqrt (np_mean (squared numeric_series)))"

record RawStats =
  rs_RMS :: double
  rs_Mean :: double
  rs_Std :: double
  rs_Max :: double
  rs_Min :: double
  rs_Count :: int

definition calculate_statistics_improved :: "cell list \<Rightarrow> RawStats" where
  "calculate_statistics_improved series =
     (let numeric_series = to_numeric_dropna series in
      if empty_series numeric_series then
        \<lparr>rs_RMS = Fin 0, rs_Mean = Fin 0, rs_Std = Fin 0, rs_Max = Fin 0, rs_Min = Fin 0,
         rs_Count = 0\<rparr>
      else
        \<lparr>rs_RMS = np_sqrt (np_mean (squared numeric_series)),
         rs_Mean = np_mean numeric_series,
         rs_Std = np_std numeric_series,
         rs_Max = np_max numeric_series,
         rs_Min = np_min numeric_series,
         rs_Count = int (len numeric_series)\<rparr>)"

section \<open>Windowing engine (the chart functions of the generated report)\<close>

text \<open>
  \<^verbatim>\<open>updateIntegratedChart\<close> and \<^verbatim>\<open>updateRMSChart\<close> run the same code for each
  selected channel: they cut the series to ten seconds, walk it in steps of a tenth of a
  second and push one value and one time per window. The sampling rate is the integer
  that \<^verbatim>\<open>analyze_emg_data\<close> stored for the source. Here the samples and the
  results of the arithmetic are the real numbers they denote.
\<close>

datatype source_type = Noraxon | Other

text \<open>\<^verbatim>\<open>sampling_rate = 2000 if config['type'] == 'Noraxon' else 1000\<close>\<close>

definition sampling_rate_of :: "source_type \<Rightarrow> nat" where
  "sampling_rate_of t = (if t = Noraxon then 2000 else 1000)"

text \<open>\<^verbatim>\<open>data.sampling_rate || 1000\<close>: a rate of zero is replaced by 1000.\<close>

definition default_sampling_rate :: "nat \<Rightarrow> nat" where
  "default_sampling_rate sampling_rate = (if sampling_rate = 0 then 1000 else sampling_rate)"

text \<open>
  \<^verbatim>\<open>xs.slice(a, b)\<close> for indices that are not negative: the elements from \<open>a\<close> up to,
  not including, \<open>b\<close>, as far as the array reaches; empty when \<open>b \<le> a\<close>.
\<close>

definition js_slice :: "'a list \<Rightarrow> nat \<Rightarrow> nat \<Rightarrow> 'a list" where
  "js_slice xs a b = take (b - a) (drop a xs)"

text \<open>
  The state of either loop: the index \<open>i\<close>, the values pushed so far and the times
  pushed so far.
\<close>

type_synonym loop_state = "nat \<times> real list \<times> real list"

text \<open>
  One pass through the body of the loop of \<^verbatim>\<open>updateIntegratedChart\<close>, followed by
  \<^verbatim>\<open>i += windowSize\<close>.
\<close>

definition integrated_body :: "nat \<Rightarrow> nat \<Rightarrow> real list \<Rightarrow> loop_state \<Rightarrow> loop_state" where
  "integrated_body samplingRate windowSize limitedData s =
     (case s of (i, sampledY, timeData) \<Rightarrow>
        let window = js_slice limitedData i (i + windowSize) in
        if length window > 0 then
          let avgValue = foldl (\<lambda>sum val. sum + val) 0 window / real (length window)
          in (i + windowSize, sampledY @ [avgValue], timeData @ [real i / real samplingRate])
        else (i + windowSize, sampledY, timeData))"

text \<open>
  \<^verbatim>\<open>for (let i = 0; i < limitedData.length; i += windowSize) { ... }\<close>, from any
  state; \<^term>\<open>None\<close> when the loop does not end.
\<close>

partial_function (option) integrated_loop ::
  "nat \<Rightarrow> nat \<Rightarrow> real list \<Rightarrow> loop_state \<Rightarrow> loop_state option" where
  "integrated_loop samplingRate windowSize limitedData s =
     (if fst s < length limitedData
      then integrated_loop samplingRate windowSize limitedData
             (integrated_body samplingRate windowSize limitedData s)
      else Some s)"

text \<open>
  The trace of one channel in \<^verbatim>\<open>updateIntegratedChart\<close>, from the cut to ten
  seconds to the end of the loop: \<open>(x, y) = (timeData, sampledY)\<close>.
\<close>

definition updateIntegratedChart_xy :: "nat \<Rightarrow> real list \<Rightarrow> (real list \<times> real list) option" where
  "updateIntegratedChart_xy samplingRate yData =
     (let maxSamples = min (length yData) (samplingRate * 10);
          limitedData = js_slice yData 0 maxSamples;
          windowSize = nat \<lfloor>real samplingRate * 0.1\<rfloor>
      in map_option (\<lambda>(i, sampledY, timeData). (timeData, sampledY))
           (integrated_loop samplingRate windowSize limitedData (0, [], [])))"

text \<open>
  The same for \<^verbatim>\<open>updateRMSChart\<close>, whose body pushes the root mean square of the
  window.
\<close>

definition rms_body :: "nat \<Rightarrow> nat \<Rightarrow> real list \<Rightarrow> loop_state \<Rightarrow> loop_state" where
  "rms_body samplingRate windowSize limitedData s =
     (case s of (i, rmsValues, timeData) \<Rightarrow>
        let window = js_slice limitedData i (i + windowSize) in
        if length window > 0 then
          let rms = sqrt (foldl (\<lambda>sum val. sum + val * val) 0 window / real (length window))
          in (i + windowSize, rmsValues @ [rms], timeData @ [real i / real samplingRate])
        else (i + windowSize, rmsValues, timeData))"

partial_function (option) rms_loop ::
  "nat \<Rightarrow> nat \<Rightarrow> real list \<Rightarrow> loop_state \<Rightarrow> loop_state option" where
  "rms_loop samplingRate windowSize limitedData s =
     (if fst s < length limitedData
      then rms_loop samplingRate windowSize limitedData
             (rms_body samplingRate windowSize limitedData s)
      else Some s)"

definition updateRMSChart_xy :: "nat \<Rightarrow> real list \<Rightarrow> (real list \<times> real list) option" where
  "updateRMSChart_xy samplingRate yData =
     (let maxSamples = min (length yData) (samplingRate * 10);
          limitedData = js_slice yData 0 maxSamples;
          windowSize = nat \<lfloor>real samplingRate * 0.1\<rfloor>
      in map_option (\<lambda>(i, rmsValues, timeData). (timeData, rmsValues))
           (rms_loop samplingRate windowSize limitedData (0, [], [])))"

text \<open>The traces as the chart functions build them, from the rate stored with the data.\<close>

definition updateIntegratedChart_trace :: "nat \<Rightarrow> real list \<Rightarrow> (real list \<times> real list) option" where
  "updateIntegratedChart_trace sampling_rate yData =
     updateIntegratedChart_xy (default_sampling_rate sampling_rate) yData"

definition updateRMSChart_trace :: "nat \<Rightarrow> real list \<Rightarrow> (real list \<times> real list) option" where
  "updateRMSChart_trace sampling_rate yData =
     updateRMSChart_xy (default_sampling_rate sampling_rate) yData"

section \<open>The Q/B ratio of the results table (displayBasicResults)\<close>

text \<open>
  The row of one source in \<^verbatim>\<open>analysis_results\<close>: the filtered and the raw RMS of
  the two channels.
\<close>

record result_row =
  quad_RMS :: double
  bicep_RMS :: double
  quad_RMS_orig :: double
  bicep_RMS_orig :: double

definition analysis_row :: "StatBundle \<Rightarrow> StatBundle \<Rightarrow> result_row" where
  "analysis_row quad_stats bicep_stats =
     \<lparr>quad_RMS = RMS_filtered quad_stats, bicep_RMS = RMS_filtered bicep_stats,
      quad_RMS_orig = RMS quad_stats, bicep_RMS_orig = RMS bicep_stats\<rparr>"

text \<open>Rounding to the nearest integer, a tie to the even one.\<close>

definition round_half_even :: "real \<Rightarrow> int" where
  "round_half_even m =
     (let f = \<lfloor>m\<rfloor>; d = m - of_int f
      in if d < 1 / 2 then f else if d > 1 / 2 then f + 1 else if even f then f else f + 1)"

text \<open>
  The double nearest to a real number: 53 significant bits, the exponent not below
  \<open>-1022\<close>, an infinity from \<open>2\<^sup>1\<^sup>0\<^sup>2\<^sup>4\<close> on.
\<close>

definition round_double :: "real \<Rightarrow> double" where
  "round_double x =
     (if x = 0 then Fin 0
      else
        let e = max \<lfloor>log 2 \<bar>x\<bar>\<rfloor> (- 1022);
            u = 2 powi (e - 52);
            y = of_int (round_half_even (x / u)) * u
        in if 2 ^ 1024 \<le> y then PInf else if y \<le> - (2 ^ 1024) then NInf else Fin y)"

text \<open>The division \<^verbatim>\<open>a / b\<close> of two numbers in JavaScript.\<close>

fun js_div :: "double \<Rightarrow> double \<Rightarrow> double" where
  "js_div (Fin a) (Fin b) =
     (if b = 0 then (if a = 0 then NaN else if 0 < a then PInf else NInf)
      else round_double (a / b))"
| "js_div NaN _ = NaN"
| "js_div _ NaN = NaN"
| "js_div (Fin a) _ = Fin 0"
| "js_div PInf (Fin b) = (if 0 \<le> b then PInf else NInf)"
| "js_div NInf (Fin b) = (if 0 \<le> b then NInf else PInf)"
| "js_div _ _ = NaN"

text \<open>
  The content of the ratio cell: the text \<^verbatim>\<open>'N/A'\<close>; a numeral with three fraction
  digits, given by its sign and its number of thousandths; or the text that
  \<^verbatim>\<open>toString\<close> gives for a number (\<^verbatim>\<open>'NaN'\<close>, \<^verbatim>\<open>'Infinity'\<close>, a numeral with
  an exponent).
\<close>

datatype ratio_cell = NA | Fixed3 bool nat | To_string double

text \<open>
  \<^verbatim>\<open>x.toFixed(3)\<close>: for a finite \<open>x\<close> below \<open>10\<^sup>2\<^sup>1\<close> in magnitude, the sign and the
  numeral with three fraction digits nearest to the magnitude, the larger one of two
  equally near; \<^verbatim>\<open>toString\<close> of \<open>x\<close> otherwise.
\<close>

fun toFixed3 :: "double \<Rightarrow> ratio_cell" where
  "toFixed3 (Fin x) =
     (if 10 ^ 21 \<le> \<bar>x\<bar> then To_string (Fin x)
      else Fixed3 (x < 0) (nat \<lfloor>\<bar>x\<bar> * 1000 + 1 / 2\<rfloor>))"
| "toFixed3 x = To_string x"

fun cell_value :: "ratio_cell \<Rightarrow> real option" where
  "cell_value (Fixed3 negative n) = Some ((if negative then - 1 else 1) * real n / 1000)"
| "cell_value _ = None"

text \<open>\<^verbatim>\<open>bicepRMS !== 0 ? (quadRMS / bicepRMS).toFixed(3) : 'N/A'\<close>\<close>

definition ratio :: "result_row \<Rightarrow> ratio_cell" where
  "ratio data =
     (let quadRMS = quad_RMS data; bicepRMS = bicep_RMS data
      in if bicepRMS \<noteq> Fin 0 then toFixed3 (js_div quadRMS bicepRMS) else NA)"

section \<open>The statements of the specification, in its own words\<close>

text \<open>The root mean square of a series of real samples: \<open>sqrt (mean (x\<^sub>i\<^sup>2))\<close>.\<close>

definition spec_rms :: "real list \<Rightarrow> real" where
  "spec_rms x = sqrt (sum_list (map (\<lambda>v. v ^ 2) x) / real (length x))"

text \<open>
  The partition of a series into consecutive windows of \<open>w\<close> samples, the last one
  shorter when the length is not a multiple of \<open>w\<close>.
\<close>

function spec_windows :: "nat \<Rightarrow> 'a list \<Rightarrow> 'a list list" where
  "spec_windows w xs =
     (if w = 0 \<or> xs = [] then [] else take w xs # spec_windows w (drop w xs))"
  by pat_completeness auto
termination
  by (relation "measure (\<lambda>(w, xs). length xs)") auto

text \<open>
  The horizon of ten seconds and the window of a tenth of a second: the samples that
  take part and the number of samples of a window.
\<close>

definition spec_truncated :: "nat \<Rightarrow> 'a list \<Rightarrow> 'a list" where
  "spec_truncated samplingRateHz series =
     take (min (length series) (samplingRateHz * 10)) series"

definition spec_window_size :: "nat \<Rightarrow> nat" where
  "spec_window_size samplingRateHz = nat \<lfloor>real samplingRateHz * 0.1\<rfloor>"

definition spec_window_mean :: "real list \<Rightarrow> real" where
  "spec_window_mean window = sum_list window / real (length window)"

definition spec_window_rms :: "real list \<Rightarrow> real" where
  "spec_window_rms window = sqrt (sum_list (map (\<lambda>v. v ^ 2) window) / real (length window))"

section \<open>Example columns\<close>

text \<open>Twenty-one integer cells, all \<open>2\<^sup>3\<^sup>2\<close>.\<close>

definition int_column :: "cell list" where
  "int_column =
     [Int_cell 4294967296, Int_cell 4294967296, Int_cell 4294967296, Int_cell 4294967296,
       Int_cell 4294967296, Int_cell 4294967296, Int_cell 4294967296, Int_cell 4294967296,
       Int_cell 4294967296, Int_cell 4294967296, Int_cell 4294967296, Int_cell 4294967296,
       Int_cell 4294967296, Int_cell 4294967296, Int_cell 4294967296, Int_cell 4294967296,
       Int_cell 4294967296, Int_cell 4294967296, Int_cell 4294967296, Int_cell 4294967296,
       Int_cell 4294967296]"

text \<open>The numbers 1 to 19 together with the cells \<^verbatim>\<open>inf\<close> and \<^verbatim>\<open>-inf\<close>.\<close>

definition inf_column :: "cell list" where
  "inf_column =
     [Float_cell PInf, Float_cell NInf,
      Float_cell (Fin 1), Float_cell (Fin 2), Float_cell (Fin 3), Float_cell (Fin 4), Float_cell (Fin 5),
      Float_cell (Fin 6), Float_cell (Fin 7), Float_cell (Fin 8), Float_cell (Fin 9), Float_cell (Fin 10),
      Float_cell (Fin 11), Float_cell (Fin 12), Float_cell (Fin 13), Float_cell (Fin 14), Float_cell (Fin 15),
      Float_cell (Fin 16), Float_cell (Fin 17), Float_cell (Fin 18), Float_cell (Fin 19)]"

text \<open>Twenty cells \<^verbatim>\<open>-1.5e308\<close> and one cell \<^verbatim>\<open>1.5e308\<close>, all finite.\<close>

definition sample_1_5e308 :: real where
  "sample_1_5e308 = 15 * 10 ^ 307"

definition large_column :: "cell list" where
  "large_column = replicate 20 (Float_cell (Fin (- sample_1_5e308))) @ [Float_cell (Fin sample_1_5e308)]"

section \<open>Auxiliary lemmas\<close>

subsection \<open>The partition into windows\<close>

declare spec_windows.simps [simp del]

lemma spec_windows_Nil [simp]: "spec_windows w [] = []"
  by (subst spec_windows.simps) simp

lemma spec_windows_zero [simp]: "spec_windows 0 xs = []"
  by (subst spec_windows.simps) simp

lemma spec_windows_step:
  "0 < w \<Longrightarrow> xs \<noteq> [] \<Longrightarrow> spec_windows w xs = take w xs # spec_windows w (drop w xs)"
  by (subst spec_windows.simps) simp





subsection \<open>The iteration of the two chart functions\<close>

lemma window_size_div: "nat \<lfloor>real r * 0.1\<rfloor> = r div 10"
proof -
  have "real r * 0.1 = real r / real 10" by simp
  then have "\<lfloor>real r * 0.1\<rfloor> = int (r div 10)"
    by (simp only: floor_divide_of_nat_eq)
  then show ?thesis by simp
qed

lemma foldl_add_sum: "foldl (\<lambda>sum val. sum + val) a (xs::real list) = a + sum_list xs"
  by (induction xs arbitrary: a) auto

lemma foldl_sq_sum:
  "foldl (\<lambda>sum val. sum + val * val) a (xs::real list) = a + sum_list (map (\<lambda>v. v ^ 2) xs)"
  by (induction xs arbitrary: a) (auto simp: power2_eq_square)

lemma fst_integrated_body: "fst (integrated_body r w xs s) = fst s + w"
  by (cases s) (simp add: integrated_body_def Let_def)

lemma fst_rms_body: "fst (rms_body r w xs s) = fst s + w"
  by (cases s) (simp add: rms_body_def Let_def)

lemma fst_integrated_iter: "fst ((integrated_body r w xs ^^ k) s) = fst s + k * w"
  by (induction k) (simp_all add: fst_integrated_body)

lemma fst_rms_iter: "fst ((rms_body r w xs ^^ k) s) = fst s + k * w"
  by (induction k) (simp_all add: fst_rms_body)

lemma integrated_body_window:
  "0 < w \<Longrightarrow> i < length xs \<Longrightarrow>
   integrated_body r w xs (i, ys, ts) =
     (i + w, ys @ [spec_window_mean (take w (drop i xs))], ts @ [real i / real r])"
  by (simp add: integrated_body_def js_slice_def Let_def spec_window_mean_def foldl_add_sum)

lemma rms_body_window:
  "0 < w \<Longrightarrow> i < length xs \<Longrightarrow>
   rms_body r w xs (i, ys, ts) =
     (i + w, ys @ [spec_window_rms (take w (drop i xs))], ts @ [real i / real r])"
  by (simp add: rms_body_def js_slice_def Let_def spec_window_rms_def foldl_sq_sum)

lemma window_times_step:
  "map (\<lambda>k. real (i + k * w) / real r) [0..<Suc n] =
     (real i / real r) # map (\<lambda>k. real (i + w + k * w) / real r) [0..<n]"
proof -
  have "[0..<Suc n] = 0 # map Suc [0..<n]"
    by (simp add: upt_conv_Cons map_Suc_upt del: upt_Suc)
  then show ?thesis by (simp add: o_def algebra_simps del: upt_Suc)
qed

lemma integrated_loop_closed:
  assumes w: "0 < w"
  shows "integrated_loop r w xs (i, ys, ts) =
     Some (i + w * length (spec_windows w (drop i xs)),
           ys @ map spec_window_mean (spec_windows w (drop i xs)),
           ts @ map (\<lambda>k. real (i + k * w) / real r) [0..<length (spec_windows w (drop i xs))])"
proof (induction "length xs - i" arbitrary: i ys ts rule: less_induct)
  case less
  show ?case
  proof (cases "i < length xs")
    case False
    then have "drop i xs = []" by simp
    then show ?thesis using False
      by (subst integrated_loop.simps) simp
  next
    case True
    then have ne: "drop i xs \<noteq> []" by simp
    have sw: "spec_windows w (drop i xs) = take w (drop i xs) # spec_windows w (drop (i + w) xs)"
      using spec_windows_step[OF w ne] by (simp add: add.commute)
    have "length xs - (i + w) < length xs - i" using True w by arith
    note ih = less[OF this, of "ys @ [spec_window_mean (take w (drop i xs))]" "ts @ [real i / real r]"]
    have "integrated_loop r w xs (i, ys, ts) =
          integrated_loop r w xs (integrated_body r w xs (i, ys, ts))"
      using True by (subst integrated_loop.simps) simp
    also have "\<dots> = integrated_loop r w xs (i + w, ys @ [spec_window_mean (take w (drop i xs))], ts @ [real i / real r])"
      by (simp only: integrated_body_window[OF w True])
    finally have "integrated_loop r w xs (i, ys, ts) =
       Some (i + w + w * length (spec_windows w (drop (i + w) xs)),
             (ys @ [spec_window_mean (take w (drop i xs))]) @
               map spec_window_mean (spec_windows w (drop (i + w) xs)),
             (ts @ [real i / real r]) @
               map (\<lambda>k. real (i + w + k * w) / real r)
                 [0..<length (spec_windows w (drop (i + w) xs))])"
      by (simp only: ih)
    then show ?thesis
      unfolding sw length_Cons window_times_step by simp
  qed
qed

lemma rms_loop_closed:
  assumes w: "0 < w"
  shows "rms_loop r w xs (i, ys, ts) =
     Some (i + w * length (spec_windows w (drop i xs)),
           ys @ map spec_window_rms (spec_windows w (drop i xs)),
           ts @ map (\<lambda>k. real (i + k * w) / real r) [0..<length (spec_windows w (drop i xs))])"
proof (induction "length xs - i" arbitrary: i ys ts rule: less_induct)
  case less
  show ?case
  proof (cases "i < length xs")
    case False
    then have "drop i xs = []" by simp
    then show ?thesis using False
      by (subst rms_loop.simps) simp
  next
    case True
    then have ne: "drop i xs \<noteq> []" by simp
    have sw: "spec_windows w (drop i xs) = take w (drop i xs) # spec_windows w (drop (i + w) xs)"
      using spec_windows_step[OF w ne] by (simp add: add.commute)
    have "length xs - (i + w) < length xs - i" using True w by arith
    note ih = less[OF this, of "ys @ [spec_window_rms (take w (drop i xs))]" "ts @ [real i / real r]"]
    have "rms_loop r w xs (i, ys, ts) = rms_loop r w xs (rms_body r w xs (i, ys, ts))"
      using True by (subst rms_loop.simps) simp
    also have "\<dots> = rms_loop r w xs (i + w, ys @ [spec_window_rms (take w (drop i xs))], ts @ [real i / real r])"
      by (simp only: rms_body_window[OF w True])
    finally have "rms_loop r w xs (i, ys, ts) =
       Some (i + w + w * length (spec_windows w (drop (i + w) xs)),
             (ys @ [spec_window_rms (take w (drop i xs))]) @
               map spec_window_rms (spec_windows w (drop (i + w) xs)),
             (ts @ [real i / real r]) @
               map (\<lambda>k. real (i + w + k * w) / real r)
                 [0..<length (spec_windows w (drop (i + w) xs))])"
      by (simp only: ih)
    then show ?thesis
      unfolding sw length_Cons window_times_step by simp
  qed
qed

lemma integrated_loop_stuck:
  assumes "integrated_loop r w xs s = Some t"
  shows "\<not> (w = 0 \<and> fst s < length xs)"
proof (rule integrated_loop.raw_induct[where P = "\<lambda>r w xs s t. \<not> (w = 0 \<and> fst s < length xs)", OF _ assms])
  fix f :: "nat \<Rightarrow> nat \<Rightarrow> real list \<Rightarrow> loop_state \<Rightarrow> loop_state option" 
  fix r w xs s t
  assume IH: "\<And>r w xs s t. f r w xs s = Some t \<Longrightarrow> \<not> (w = 0 \<and> fst s < length xs)"
    and eq: "(if fst s < length xs then f r w xs (integrated_body r w xs s) else Some s) = Some t"
  show "\<not> (w = 0 \<and> fst s < length xs)"
  proof
    assume a: "w = 0 \<and> fst s < length xs"
    then have "f r w xs (integrated_body r w xs s) = Some t" using eq by simp
    from IH[OF this] have "\<not> fst (integrated_body r w xs s) < length xs" using a by simp
    then show False using a by (simp add: fst_integrated_body)
  qed
qed

lemma rms_loop_stuck:
  assumes "rms_loop r w xs s = Some t"
  shows "\<not> (w = 0 \<and> fst s < length xs)"
proof (rule rms_loop.raw_induct[where P = "\<lambda>r w xs s t. \<not> (w = 0 \<and> fst s < length xs)", OF _ assms])
  fix f :: "nat \<Rightarrow> nat \<Rightarrow> real list \<Rightarrow> loop_state \<Rightarrow> loop_state option" 
  fix r w xs s t
  assume IH: "\<And>r w xs s t. f r w xs s = Some t \<Longrightarrow> \<not> (w = 0 \<and> fst s < length xs)"
    and eq: "(if fst s < length xs then f r w xs (rms_body r w xs s) else Some s) = Some t"
  show "\<not> (w = 0 \<and> fst s < length xs)"
  proof
    assume a: "w = 0 \<and> fst s < length xs"
    then have "f r w xs (rms_body r w xs s) = Some t" using eq by simp
    from IH[OF this] have "\<not> fst (rms_body r w xs s) < length xs" using a by simp
    then show False using a by (simp add: fst_rms_body)
  qed
qed

lemma integrated_loop_None: "fst s < length xs \<Longrightarrow> integrated_loop r 0 xs s = None"
  using integrated_loop_stuck[of r 0 xs s] by (cases "integrated_loop r 0 xs s") auto

lemma rms_loop_None: "fst s < length xs \<Longrightarrow> rms_loop r 0 xs s = None"
  using rms_loop_stuck[of r 0 xs s] by (cases "rms_loop r 0 xs s") auto

lemma integrated_loop_exit: "\<not> fst s < length xs \<Longrightarrow> integrated_loop r w xs s = Some s"
  by (subst integrated_loop.simps) simp

lemma rms_loop_exit: "\<not> fst s < length xs \<Longrightarrow> rms_loop r w xs s = Some s"
  by (subst rms_loop.simps) simp

lemma integrated_loop_iter:
  "(\<forall>k<n. fst ((integrated_body r w xs ^^ k) s) < length xs) \<Longrightarrow>
   \<not> fst ((integrated_body r w xs ^^ n) s) < length xs \<Longrightarrow>
   integrated_loop r w xs s = Some ((integrated_body r w xs ^^ n) s)"
proof (induction n arbitrary: s)
  case 0
  then show ?case by (simp add: integrated_loop_exit)
next
  case (Suc n)
  have c: "fst s < length xs" using Suc.prems(1)[rule_format, of 0] by simp
  have "integrated_loop r w xs (integrated_body r w xs s) = Some ((integrated_body r w xs ^^ n) (integrated_body r w xs s))"
  proof (rule Suc.IH)
    show "\<forall>k<n. fst ((integrated_body r w xs ^^ k) (integrated_body r w xs s)) < length xs"
      using Suc.prems(1) by (metis Suc_less_eq funpow_Suc_right o_apply)
    show "\<not> fst ((integrated_body r w xs ^^ n) (integrated_body r w xs s)) < length xs"
      using Suc.prems(2) by (metis funpow_Suc_right o_apply)
  qed
  then show ?case using c by (subst integrated_loop.simps) (simp add: funpow_swap1)
qed

lemma rms_loop_iter:
  "(\<forall>k<n. fst ((rms_body r w xs ^^ k) s) < length xs) \<Longrightarrow>
   \<not> fst ((rms_body r w xs ^^ n) s) < length xs \<Longrightarrow>
   rms_loop r w xs s = Some ((rms_body r w xs ^^ n) s)"
proof (induction n arbitrary: s)
  case 0
  then show ?case by (simp add: rms_loop_exit)
next
  case (Suc n)
  have c: "fst s < length xs" using Suc.prems(1)[rule_format, of 0] by simp
  have "rms_loop r w xs (rms_body r w xs s) = Some ((rms_body r w xs ^^ n) (rms_body r w xs s))"
  proof (rule Suc.IH)
    show "\<forall>k<n. fst ((rms_body r w xs ^^ k) (rms_body r w xs s)) < length xs"
      using Suc.prems(1) by (metis Suc_less_eq funpow_Suc_right o_apply)
    show "\<not> fst ((rms_body r w xs ^^ n) (rms_body r w xs s)) < length xs"
      using Suc.prems(2) by (metis funpow_Suc_right o_apply)
  qed
  then show ?case using c by (subst rms_loop.simps) (simp add: funpow_swap1)
qed

lemma ceiling_div_nat: "0 < w \<Longrightarrow> nat \<lceil>real L / real w\<rceil> = (L + w - 1) div w"
proof -
  assume w: "0 < w"
  define q where "q = (L + w - 1) div w"
  have a: "L \<le> q * w" 
  proof -
    have "L + w - 1 < (q + 1) * w"
      using dividend_less_div_times[OF w, of "L + w - 1"] by (simp add: q_def algebra_simps)
    then show ?thesis using w by (cases w) auto
  qed
  have b: "q = 0 \<or> (q - 1) * w < L"
  proof (cases "q = 0")
    case False
    have "q * w \<le> L + w - 1" unfolding q_def by simp
    then have "(q - 1) * w + w \<le> L + w - 1" using False by (cases q) auto
    then show ?thesis using w by arith
  qed simp
  have "\<lceil>real L / real w\<rceil> = int q"
  proof (rule ceiling_unique)
    show "real_of_int (int q) - 1 < real L / real w"
    proof (cases "q = 0")
      case True
      have "0 \<le> real L / real w" by simp
      then show ?thesis using True by linarith
    next
      case False
      with b have "(q - 1) * w < L" by simp
      then have "real ((q - 1) * w) < real L" by (simp only: of_nat_less_iff)
      then have "real (q - 1) < real L / real w" using w by (simp add: pos_less_divide_eq)
      then show ?thesis using False by (simp add: of_nat_diff)
    qed
    have "real L \<le> real (q * w)" using a by (simp only: of_nat_le_iff)
    then show "real L / real w \<le> real_of_int (int q)" using w by (simp add: pos_divide_le_eq)
  qed
  then show ?thesis unfolding q_def by simp
qed

lemma spec_window_size_div: "spec_window_size r = r div 10"
  unfolding spec_window_size_def by (rule window_size_div)

lemma js_slice_prefix: "js_slice yData 0 (min (length yData) (r * 10)) = spec_truncated r yData"
  by (simp add: js_slice_def spec_truncated_def)


lemma integrated_xy_closed:
  assumes "0 < spec_window_size r"
  shows "updateIntegratedChart_xy r yData =
     Some (map (\<lambda>k. real (k * spec_window_size r) / real r)
             [0..<length (spec_windows (spec_window_size r) (spec_truncated r yData))],
           map spec_window_mean (spec_windows (spec_window_size r) (spec_truncated r yData)))"
  unfolding updateIntegratedChart_xy_def Let_def js_slice_prefix
  using integrated_loop_closed[OF assms, of r "spec_truncated r yData" 0 "[]" "[]"]
  by (simp add: spec_window_size_def)

lemma rms_xy_closed:
  assumes "0 < spec_window_size r"
  shows "updateRMSChart_xy r yData =
     Some (map (\<lambda>k. real (k * spec_window_size r) / real r)
             [0..<length (spec_windows (spec_window_size r) (spec_truncated r yData))],
           map spec_window_rms (spec_windows (spec_window_size r) (spec_truncated r yData)))"
  unfolding updateRMSChart_xy_def Let_def js_slice_prefix
  using rms_loop_closed[OF assms, of r "spec_truncated r yData" 0 "[]" "[]"]
  by (simp add: spec_window_size_def)











lemma iter_in_range: "0 < (w::nat) \<Longrightarrow> k < (L + w - 1) div w \<Longrightarrow> k * w < L"
proof -
  assume w: "0 < w" and k: "k < (L + w - 1) div w"
  then have "Suc k * w \<le> (L + w - 1) div w * w" by (intro mult_le_mono1) simp
  also have "\<dots> \<le> L + w - 1" by simp
  finally show ?thesis using w by simp
qed

lemma iter_out_of_range: "0 < (w::nat) \<Longrightarrow> L \<le> (L + w - 1) div w * w"
proof -
  assume w: "0 < w"
  have "L + w - 1 < w + (L + w - 1) div w * w"
    using dividend_less_div_times[OF w, of "L + w - 1"] by simp
  then show ?thesis using w by simp
qed

subsection \<open>Rounding to a double and to three decimals\<close>

lemma powr_powi: "(2::real) powr real_of_int k = 2 powi k"
  by (simp add: powr_real_of_int power_int_def power_inverse power_one_over inverse_eq_divide)

lemma exponent_eq:
  assumes "0 < x" "2 powi k \<le> x" "x < 2 powi (k + 1)"
  shows "\<lfloor>log 2 x\<rfloor> = k"
proof -
  have "2 powr real_of_int k \<le> x \<and> x < 2 powr real_of_int (k + 1)"
    using assms unfolding powr_powi by simp
  then show ?thesis using assms(1) by (subst floor_log_eq_powr_iff) simp_all
qed

lemma round_double_eval:
  assumes "x \<noteq> 0" "- 1022 \<le> k" "2 powi k \<le> \<bar>x\<bar>" "\<bar>x\<bar> < 2 powi (k + 1)"
    and "round_half_even (x / 2 powi (k - 52)) = r"
    and "\<bar>real_of_int r * 2 powi (k - 52)\<bar> < 2 ^ 1024"
  shows "round_double x = Fin (of_int r * 2 powi (k - 52))"
proof -
  have "\<lfloor>log 2 \<bar>x\<bar>\<rfloor> = k" using assms by (intro exponent_eq) auto
  then show ?thesis using assms unfolding round_double_def Let_def
    by (simp add: max_def abs_if split: if_splits)
qed

lemma round_double_third: "round_double (1 / 3) = Fin (6004799503160661 / 18014398509481984)"
proof -
  have "round_double (1 / 3) = Fin (of_int 6004799503160661 * 2 powi (- 2 - 52))"
    by (rule round_double_eval) (simp_all add: round_half_even_def power_int_minus)
  then show ?thesis by (simp add: power_int_minus)
qed

lemma round_double_2001: "round_double (2001 / 2000) = Fin (4505851427184181 / 4503599627370496)"
proof -
  have "round_double (2001 / 2000) = Fin (of_int 4505851427184181 * 2 powi (0 - 52))"
    by (rule round_double_eval) (simp_all add: round_half_even_def power_int_minus)
  then show ?thesis by (simp add: power_int_minus)
qed

lemma toFixed3_near:
  assumes "\<bar>x\<bar> < 10 ^ 21"
  shows "\<exists>negative n. toFixed3 (Fin x) = Fixed3 negative n
           \<and> cell_value (toFixed3 (Fin x)) = Some ((if negative then - 1 else 1) * real n / 1000)
           \<and> \<bar>(if negative then - 1 else 1) * real n / 1000 - x\<bar> \<le> 1 / 2000"
proof -
  define y where "y = \<bar>x\<bar> * 1000 + 1 / 2"
  have y0: "0 \<le> \<lfloor>y\<rfloor>" unfolding y_def by simp
  then have rn: "real (nat \<lfloor>y\<rfloor>) = of_int \<lfloor>y\<rfloor>" by simp
  have "real_of_int \<lfloor>y\<rfloor> \<le> y" "y < real_of_int \<lfloor>y\<rfloor> + 1" by linarith+
  then have b: "\<bar>real_of_int \<lfloor>y\<rfloor> - \<bar>x\<bar> * 1000\<bar> \<le> 1 / 2" unfolding y_def by linarith
  have c: "\<bar>real_of_int \<lfloor>y\<rfloor> / 1000 - \<bar>x\<bar>\<bar> \<le> 1 / 2000"
  proof -
    have "real_of_int \<lfloor>y\<rfloor> / 1000 - \<bar>x\<bar> = (real_of_int \<lfloor>y\<rfloor> - \<bar>x\<bar> * 1000) / 1000"
      by simp
    then have "\<bar>real_of_int \<lfloor>y\<rfloor> / 1000 - \<bar>x\<bar>\<bar> = \<bar>real_of_int \<lfloor>y\<rfloor> - \<bar>x\<bar> * 1000\<bar> / 1000"
      by (simp only: abs_divide)
    then show ?thesis using b by linarith
  qed
  have t: "toFixed3 (Fin x) = Fixed3 (x < 0) (nat \<lfloor>y\<rfloor>)"
    using assms by (simp add: y_def)
  have d: "\<bar>(if x < 0 then - 1 else 1) * real (nat \<lfloor>y\<rfloor>) / 1000 - x\<bar> \<le> 1 / 2000"
    using c unfolding rn by (cases "x < 0") (simp_all add: abs_if split: if_splits)
  show ?thesis unfolding t using d by auto
qed

subsection \<open>The example columns\<close>

lemma finite_or_inf_zero [simp]: "finite_or_inf 0 = Fin 0"
  by (simp add: finite_or_inf_def)

lemma int_column_numeric: "to_numeric_dropna int_column = Int64 [4294967296, 4294967296, 4294967296, 4294967296, 4294967296, 4294967296, 4294967296, 4294967296, 4294967296, 4294967296, 4294967296, 4294967296, 4294967296, 4294967296, 4294967296, 4294967296, 4294967296, 4294967296, 4294967296, 4294967296, 4294967296]"
  by (simp add: to_numeric_dropna_def int_column_def)

lemma int_column_sorted: "sort_key sint ([4294967296, 4294967296, 4294967296, 4294967296, 4294967296, 4294967296, 4294967296, 4294967296, 4294967296, 4294967296, 4294967296, 4294967296, 4294967296, 4294967296, 4294967296, 4294967296, 4294967296, 4294967296, 4294967296, 4294967296, 4294967296] :: 64 word list) = [4294967296, 4294967296, 4294967296, 4294967296, 4294967296, 4294967296, 4294967296, 4294967296, 4294967296, 4294967296, 4294967296, 4294967296, 4294967296, 4294967296, 4294967296, 4294967296, 4294967296, 4294967296, 4294967296, 4294967296, 4294967296]"
  by (simp add: sort_key_simps)

lemma int_column_lower: "np_percentile (Int64 [4294967296, 4294967296, 4294967296, 4294967296, 4294967296, 4294967296, 4294967296, 4294967296, 4294967296, 4294967296, 4294967296, 4294967296, 4294967296, 4294967296, 4294967296, 4294967296, 4294967296, 4294967296, 4294967296, 4294967296, 4294967296]) 2.5 = Fin 4294967296"
  unfolding np_percentile_def Let_def series.case int_column_sorted
  by (simp add: lerp_def of_int64_def d_sub_def finite_or_inf_def)

lemma int_column_upper: "np_percentile (Int64 [4294967296, 4294967296, 4294967296, 4294967296, 4294967296, 4294967296, 4294967296, 4294967296, 4294967296, 4294967296, 4294967296, 4294967296, 4294967296, 4294967296, 4294967296, 4294967296, 4294967296, 4294967296, 4294967296, 4294967296, 4294967296]) 97.5 = Fin 4294967296"
  unfolding np_percentile_def Let_def series.case int_column_sorted
  by (simp add: lerp_def of_int64_def d_sub_def finite_or_inf_def)

lemma int_column_filtered: "filtered_series (Int64 [4294967296, 4294967296, 4294967296, 4294967296, 4294967296, 4294967296, 4294967296, 4294967296, 4294967296, 4294967296, 4294967296, 4294967296, 4294967296, 4294967296, 4294967296, 4294967296, 4294967296, 4294967296, 4294967296, 4294967296, 4294967296]) = Int64 [4294967296, 4294967296, 4294967296, 4294967296, 4294967296, 4294967296, 4294967296, 4294967296, 4294967296, 4294967296, 4294967296, 4294967296, 4294967296, 4294967296, 4294967296, 4294967296, 4294967296, 4294967296, 4294967296, 4294967296, 4294967296]"
  unfolding filtered_series_def Let_def int_column_lower int_column_upper
  by (simp add: of_int64_def)

lemma int_column_squared: "squared (Int64 [4294967296, 4294967296, 4294967296, 4294967296, 4294967296, 4294967296, 4294967296, 4294967296, 4294967296, 4294967296, 4294967296, 4294967296, 4294967296, 4294967296, 4294967296, 4294967296, 4294967296, 4294967296, 4294967296, 4294967296, 4294967296]) = Int64 [0, 0, 0, 0, 0, 0, 0, 0, 0, 0, 0, 0, 0, 0, 0, 0, 0, 0, 0, 0, 0]"
  by simp

lemma int_column_mean_squares: "np_mean (Int64 [0, 0, 0, 0, 0, 0, 0, 0, 0, 0, 0, 0, 0, 0, 0, 0, 0, 0, 0, 0, 0]) = Fin 0"
  by (simp add: np_mean_def np_sum_def of_int64_def)

lemma int_column_mean: "np_mean (Int64 [4294967296, 4294967296, 4294967296, 4294967296, 4294967296, 4294967296, 4294967296, 4294967296, 4294967296, 4294967296, 4294967296, 4294967296, 4294967296, 4294967296, 4294967296, 4294967296, 4294967296, 4294967296, 4294967296, 4294967296, 4294967296]) = Fin 4294967296"
  by (simp add: np_mean_def np_sum_def of_int64_def finite_or_inf_def)

lemma inf_column_numeric: "to_numeric_dropna inf_column = Float64 [PInf, NInf, Fin 1, Fin 2, Fin 3, Fin 4, Fin 5, Fin 6, Fin 7, Fin 8, Fin 9, Fin 10, Fin 11, Fin 12, Fin 13, Fin 14, Fin 15, Fin 16, Fin 17, Fin 18, Fin 19]"
  by (simp add: to_numeric_dropna_def inf_column_def)

lemma inf_column_sorted: "sort_double [PInf, NInf, Fin 1, Fin 2, Fin 3, Fin 4, Fin 5, Fin 6, Fin 7, Fin 8, Fin 9, Fin 10, Fin 11, Fin 12, Fin 13, Fin 14, Fin 15, Fin 16, Fin 17, Fin 18, Fin 19] =
     [NInf, Fin 1, Fin 2, Fin 3, Fin 4, Fin 5, Fin 6, Fin 7, Fin 8, Fin 9, Fin 10, Fin 11,
      Fin 12, Fin 13, Fin 14, Fin 15, Fin 16, Fin 17, Fin 18, Fin 19, PInf]"
  by (simp add: sort_double_def)

lemma inf_column_lower: "np_percentile (Float64 [PInf, NInf, Fin 1, Fin 2, Fin 3, Fin 4, Fin 5, Fin 6, Fin 7, Fin 8, Fin 9, Fin 10, Fin 11, Fin 12, Fin 13, Fin 14, Fin 15, Fin 16, Fin 17, Fin 18, Fin 19]) 2.5 = NInf"
  unfolding np_percentile_def Let_def series.case inf_column_sorted
  by (simp add: lerp_def d_sub_def inf_times_def)

lemma inf_column_upper: "np_percentile (Float64 [PInf, NInf, Fin 1, Fin 2, Fin 3, Fin 4, Fin 5, Fin 6, Fin 7, Fin 8, Fin 9, Fin 10, Fin 11, Fin 12, Fin 13, Fin 14, Fin 15, Fin 16, Fin 17, Fin 18, Fin 19]) 97.5 = NaN"
  unfolding np_percentile_def Let_def series.case inf_column_sorted
  by (simp add: lerp_def d_sub_def inf_times_def)

lemma inf_column_filtered: "filtered_series (Float64 [PInf, NInf, Fin 1, Fin 2, Fin 3, Fin 4, Fin 5, Fin 6, Fin 7, Fin 8, Fin 9, Fin 10, Fin 11, Fin 12, Fin 13, Fin 14, Fin 15, Fin 16, Fin 17, Fin 18, Fin 19]) = Float64 []"
  unfolding filtered_series_def Let_def inf_column_lower inf_column_upper by simp

lemma sample_pos: "0 < sample_1_5e308" by (simp add: sample_1_5e308_def)

lemma sample_finite: "sample_1_5e308 < 2 ^ 1024 - 2 ^ 970" by (simp add: sample_1_5e308_def)

lemma sample_twice: "2 ^ 1024 - 2 ^ 970 \<le> sample_1_5e308 + sample_1_5e308"
  by (simp add: sample_1_5e308_def)

lemma sample_simps [simp]:
  "- sample_1_5e308 \<le> sample_1_5e308" "\<not> sample_1_5e308 \<le> - sample_1_5e308"
  "sample_1_5e308 \<noteq> 0" "0 \<le> sample_1_5e308"
  using sample_pos by simp_all

lemma finite_or_inf_sample [simp]:
  "finite_or_inf (sample_1_5e308 + sample_1_5e308) = PInf"
  "finite_or_inf (2 * sample_1_5e308) = PInf"
  "finite_or_inf (- sample_1_5e308) = Fin (- sample_1_5e308)"
  using sample_pos sample_finite sample_twice by (simp_all add: finite_or_inf_def)

lemma large_column_numeric: "to_numeric_dropna large_column = Float64 [Fin (- sample_1_5e308), Fin (- sample_1_5e308), Fin (- sample_1_5e308), Fin (- sample_1_5e308), Fin (- sample_1_5e308), Fin (- sample_1_5e308), Fin (- sample_1_5e308), Fin (- sample_1_5e308), Fin (- sample_1_5e308), Fin (- sample_1_5e308), Fin (- sample_1_5e308), Fin (- sample_1_5e308), Fin (- sample_1_5e308), Fin (- sample_1_5e308), Fin (- sample_1_5e308), Fin (- sample_1_5e308), Fin (- sample_1_5e308), Fin (- sample_1_5e308), Fin (- sample_1_5e308), Fin (- sample_1_5e308), Fin sample_1_5e308]"
  by (simp add: to_numeric_dropna_def large_column_def numeral_eq_Suc)

lemma large_column_sorted: "sort_double [Fin (- sample_1_5e308), Fin (- sample_1_5e308), Fin (- sample_1_5e308), Fin (- sample_1_5e308), Fin (- sample_1_5e308), Fin (- sample_1_5e308), Fin (- sample_1_5e308), Fin (- sample_1_5e308), Fin (- sample_1_5e308), Fin (- sample_1_5e308), Fin (- sample_1_5e308), Fin (- sample_1_5e308), Fin (- sample_1_5e308), Fin (- sample_1_5e308), Fin (- sample_1_5e308), Fin (- sample_1_5e308), Fin (- sample_1_5e308), Fin (- sample_1_5e308), Fin (- sample_1_5e308), Fin (- sample_1_5e308), Fin sample_1_5e308] = [Fin (- sample_1_5e308), Fin (- sample_1_5e308), Fin (- sample_1_5e308), Fin (- sample_1_5e308), Fin (- sample_1_5e308), Fin (- sample_1_5e308), Fin (- sample_1_5e308), Fin (- sample_1_5e308), Fin (- sample_1_5e308), Fin (- sample_1_5e308), Fin (- sample_1_5e308), Fin (- sample_1_5e308), Fin (- sample_1_5e308), Fin (- sample_1_5e308), Fin (- sample_1_5e308), Fin (- sample_1_5e308), Fin (- sample_1_5e308), Fin (- sample_1_5e308), Fin (- sample_1_5e308), Fin (- sample_1_5e308), Fin sample_1_5e308]"
  by (simp add: sort_double_def)

lemma large_column_lower: "np_percentile (Float64 [Fin (- sample_1_5e308), Fin (- sample_1_5e308), Fin (- sample_1_5e308), Fin (- sample_1_5e308), Fin (- sample_1_5e308), Fin (- sample_1_5e308), Fin (- sample_1_5e308), Fin (- sample_1_5e308), Fin (- sample_1_5e308), Fin (- sample_1_5e308), Fin (- sample_1_5e308), Fin (- sample_1_5e308), Fin (- sample_1_5e308), Fin (- sample_1_5e308), Fin (- sample_1_5e308), Fin (- sample_1_5e308), Fin (- sample_1_5e308), Fin (- sample_1_5e308), Fin (- sample_1_5e308), Fin (- sample_1_5e308), Fin sample_1_5e308]) 2.5 = Fin (- sample_1_5e308)"
  unfolding np_percentile_def Let_def series.case large_column_sorted
  by (simp add: lerp_def d_sub_def inf_times_def)

lemma large_column_upper: "np_percentile (Float64 [Fin (- sample_1_5e308), Fin (- sample_1_5e308), Fin (- sample_1_5e308), Fin (- sample_1_5e308), Fin (- sample_1_5e308), Fin (- sample_1_5e308), Fin (- sample_1_5e308), Fin (- sample_1_5e308), Fin (- sample_1_5e308), Fin (- sample_1_5e308), Fin (- sample_1_5e308), Fin (- sample_1_5e308), Fin (- sample_1_5e308), Fin (- sample_1_5e308), Fin (- sample_1_5e308), Fin (- sample_1_5e308), Fin (- sample_1_5e308), Fin (- sample_1_5e308), Fin (- sample_1_5e308), Fin (- sample_1_5e308), Fin sample_1_5e308]) 97.5 = NInf"
  unfolding np_percentile_def Let_def series.case large_column_sorted
  by (simp add: lerp_def d_sub_def inf_times_def)

lemma large_column_filtered: "filtered_series (Float64 [Fin (- sample_1_5e308), Fin (- sample_1_5e308), Fin (- sample_1_5e308), Fin (- sample_1_5e308), Fin (- sample_1_5e308), Fin (- sample_1_5e308), Fin (- sample_1_5e308), Fin (- sample_1_5e308), Fin (- sample_1_5e308), Fin (- sample_1_5e308), Fin (- sample_1_5e308), Fin (- sample_1_5e308), Fin (- sample_1_5e308), Fin (- sample_1_5e308), Fin (- sample_1_5e308), Fin (- sample_1_5e308), Fin (- sample_1_5e308), Fin (- sample_1_5e308), Fin (- sample_1_5e308), Fin (- sample_1_5e308), Fin sample_1_5e308]) = Float64 []"
  unfolding filtered_series_def Let_def large_column_lower large_column_upper by simp

section \<open>Properties of the program\<close>

text \<open>
  C1. The filtered RMS is not always that of the retained samples. On the column of
  twenty-one integer cells \<open>2\<^sup>3\<^sup>2\<close> the two percentiles are \<open>2\<^sup>3\<^sup>2\<close>, all twenty-one
  samples are retained and their mean is \<open>2\<^sup>3\<^sup>2\<close>, but the squares are computed in 64-bit
  integers and wrap to zero: \<open>RMS_filtered\<close> is 0, whereas the root mean square of the
  retained samples is \<open>2\<^sup>3\<^sup>2\<close>.
\<close>

theorem int64_squares_wrap_in_filtered_rms:
  "let b = calculate_statistics int_column True
   in len (to_numeric_dropna int_column) = 21
    \<and> Count b = 21
    \<and> filtered_series (to_numeric_dropna int_column) = to_numeric_dropna int_column
    \<and> Count_filtered b = 21
    \<and> Outliers_removed b = 0
    \<and> Mean_filtered b = Fin 4294967296
    \<and> RMS_filtered b = Fin 0
    \<and> spec_rms (replicate 21 4294967296) = 4294967296"
proof -
  have "sum_list (map (\<lambda>v. v ^ 2) (replicate 21 (4294967296 :: real))) / real (length (replicate 21 (4294967296 :: real)))
        = 4294967296 ^ 2"
    by (simp add: sum_list_replicate)
  then have s: "spec_rms (replicate 21 4294967296) = 4294967296"
    unfolding spec_rms_def by (simp only: real_sqrt_abs)
  have e: "\<not> empty_series (Int64 [4294967296, 4294967296, 4294967296, 4294967296, 4294967296, 4294967296, 4294967296, 4294967296, 4294967296, 4294967296, 4294967296, 4294967296, 4294967296, 4294967296, 4294967296, 4294967296, 4294967296, 4294967296, 4294967296, 4294967296, 4294967296])"
    by (simp add: empty_series_def)
  have l: "len (Int64 [4294967296, 4294967296, 4294967296, 4294967296, 4294967296, 4294967296, 4294967296, 4294967296, 4294967296, 4294967296, 4294967296, 4294967296, 4294967296, 4294967296, 4294967296, 4294967296, 4294967296, 4294967296, 4294967296, 4294967296, 4294967296]) = 21" by simp
  show ?thesis
    unfolding Let_def calculate_statistics_def int_column_numeric int_column_filtered
      int_column_squared int_column_mean_squares int_column_mean
    using e l s by (simp add: np_sqrt_def)
qed

text \<open>
  C2. A series with at least one and at most twenty numeric samples is not trimmed: every
  filtered field equals the raw field and \<open>Outliers_removed\<close> is zero, whatever the
  trimming flag.
\<close>

theorem short_series_not_trimmed:
  assumes "\<not> empty_series (to_numeric_dropna series)"
    and "len (to_numeric_dropna series) \<le> 20"
  shows "let b = calculate_statistics series remove_outliers
         in RMS_filtered b = RMS b \<and> Mean_filtered b = Mean b \<and> Std_filtered b = Std b
          \<and> Max_filtered b = Max_stat b \<and> Min_filtered b = Min_stat b
          \<and> Count_filtered b = Count b \<and> Outliers_removed b = 0"
  using assms by (simp add: calculate_statistics_def Let_def)

theorem short_series_not_trimmed_witness:
  "\<not> empty_series (to_numeric_dropna [Float_cell (Fin 3), Text_cell, Float_cell (Fin 4)])
   \<and> len (to_numeric_dropna [Float_cell (Fin 3), Text_cell, Float_cell (Fin 4)]) \<le> 20
   \<and> (let b = calculate_statistics [Float_cell (Fin 3), Text_cell, Float_cell (Fin 4)] True
       in RMS_filtered b = RMS b \<and> Mean_filtered b = Mean b \<and> Std_filtered b = Std b
        \<and> Max_filtered b = Max_stat b \<and> Min_filtered b = Min_stat b
        \<and> Count_filtered b = Count b \<and> Outliers_removed b = 0)"
proof -
  have h1: "\<not> empty_series (to_numeric_dropna [Float_cell (Fin 3), Text_cell, Float_cell (Fin 4)])"
    by (simp add: to_numeric_dropna_def empty_series_def)
  have h2: "len (to_numeric_dropna [Float_cell (Fin 3), Text_cell, Float_cell (Fin 4)]) \<le> 20"
    by (simp add: to_numeric_dropna_def)
  show ?thesis using short_series_not_trimmed[OF h1 h2, of True] h1 h2 by blast
qed

text \<open>
  C3. The raw RMS is not always \<open>sqrt (mean (x\<^sub>i\<^sup>2))\<close>. On a column whose one cell is
  the integer \<open>2\<^sup>3\<^sup>2\<close> the square is computed in 64-bit integers and wraps to zero:
  \<open>calculate_rms\<close> and the \<open>RMS\<close> field of both modules are 0, whereas the root mean
  square of the series is \<open>2\<^sup>3\<^sup>2\<close>. For the integer 3037000500 the square wraps to a
  negative number and the RMS is NaN, which is not a number that is at least zero.
\<close>

theorem int64_squares_wrap_in_rms:
  "calculate_rms [Int_cell 4294967296] = Fin 0
   \<and> RMS (calculate_statistics [Int_cell 4294967296] True) = Fin 0
   \<and> rs_RMS (calculate_statistics_improved [Int_cell 4294967296]) = Fin 0
   \<and> spec_rms [4294967296] = 4294967296
   \<and> calculate_rms [Int_cell 3037000500] = NaN
   \<and> RMS (calculate_statistics [Int_cell 3037000500] True) = NaN"
proof -
  have "spec_rms [4294967296] = sqrt (4294967296 ^ 2)"
    by (simp add: spec_rms_def)
  then have s: "spec_rms [4294967296] = 4294967296"
    by (simp only: real_sqrt_abs)
  show ?thesis
    using s
    by (simp add: calculate_rms_def calculate_statistics_def calculate_statistics_improved_def
        to_numeric_dropna_def empty_series_def np_mean_def np_sum_def np_sqrt_def of_int64_def
        finite_or_inf_def Let_def)
qed






text \<open>
  C6. A series with no numeric sample gives the bundle whose fields are all zero (the
  thirteen fields of emg_web_report.py, whatever the trimming flag, and the six fields of
  emg_analysis_improved.py); the result is a value, not an error, and no percentile
  enters it.
\<close>

theorem empty_series_zero_bundle:
  "empty_series (to_numeric_dropna series) \<Longrightarrow>
     calculate_statistics series remove_outliers =
       \<lparr>RMS = Fin 0, Mean = Fin 0, Std = Fin 0, Max_stat = Fin 0, Min_stat = Fin 0,
        Count = 0,
        RMS_filtered = Fin 0, Mean_filtered = Fin 0, Std_filtered = Fin 0,
        Max_filtered = Fin 0, Min_filtered = Fin 0, Count_filtered = 0,
        Outliers_removed = 0\<rparr>
     \<and> calculate_statistics_improved series =
       \<lparr>rs_RMS = Fin 0, rs_Mean = Fin 0, rs_Std = Fin 0, rs_Max = Fin 0, rs_Min = Fin 0,
        rs_Count = 0\<rparr>"
  by (simp add: calculate_statistics_def calculate_statistics_improved_def)

theorem empty_series_zero_bundle_witness:
  "empty_series (to_numeric_dropna [Text_cell, Text_cell])
   \<and> calculate_statistics [Text_cell, Text_cell] True =
       \<lparr>RMS = Fin 0, Mean = Fin 0, Std = Fin 0, Max_stat = Fin 0, Min_stat = Fin 0,
        Count = 0,
        RMS_filtered = Fin 0, Mean_filtered = Fin 0, Std_filtered = Fin 0,
        Max_filtered = Fin 0, Min_filtered = Fin 0, Count_filtered = 0,
        Outliers_removed = 0\<rparr>
   \<and> calculate_statistics_improved [Text_cell, Text_cell] =
       \<lparr>rs_RMS = Fin 0, rs_Mean = Fin 0, rs_Std = Fin 0, rs_Max = Fin 0, rs_Min = Fin 0,
        rs_Count = 0\<rparr>"
proof -
  have h: "empty_series (to_numeric_dropna [Text_cell, Text_cell])"
    by (simp add: to_numeric_dropna_def empty_series_def)
  show ?thesis using empty_series_zero_bundle [OF h, of True] h by simp
qed

text \<open>
  C7 (as amended). In the row of a source, when the filtered RMS of the biceps channel is
  zero the ratio cell is the text \<^verbatim>\<open>'N/A'\<close>. Otherwise it is what \<^verbatim>\<open>toFixed(3)\<close>
  writes for the quotient of the two filtered RMS values as JavaScript computes it, which
  for finite values is their quotient rounded to the nearest double; when that quotient
  is finite and below \<open>10\<^sup>2\<^sup>1\<close> in magnitude the cell is a numeral with three fraction
  digits within 0.0005 of it.
\<close>

theorem ratio_guarded_and_rounded:
  "let data = analysis_row quad_stats bicep_stats;
       quotient = js_div (RMS_filtered quad_stats) (RMS_filtered bicep_stats)
   in (RMS_filtered bicep_stats = Fin 0 \<longrightarrow> ratio data = NA)
    \<and> (RMS_filtered bicep_stats \<noteq> Fin 0 \<longrightarrow>
         ratio data = toFixed3 quotient
       \<and> (\<forall>a b. RMS_filtered quad_stats = Fin a \<longrightarrow> RMS_filtered bicep_stats = Fin b \<longrightarrow>
              quotient = round_double (a / b))
       \<and> (\<forall>x. quotient = Fin x \<longrightarrow> \<bar>x\<bar> < 10 ^ 21 \<longrightarrow>
              (\<exists>negative n.
                  ratio data = Fixed3 negative n
                \<and> cell_value (ratio data) = Some ((if negative then - 1 else 1) * real n / 1000)
                \<and> \<bar>(if negative then - 1 else 1) * real n / 1000 - x\<bar> \<le> 1 / 2000)))"
proof -
  define q where "q = js_div (RMS_filtered quad_stats) (RMS_filtered bicep_stats)"
  have A: "ratio (analysis_row quad_stats bicep_stats) = NA" if "RMS_filtered bicep_stats = Fin 0"
    using that by (simp add: ratio_def analysis_row_def)
  have B: "ratio (analysis_row quad_stats bicep_stats) = toFixed3 q"
    if "RMS_filtered bicep_stats \<noteq> Fin 0"
    using that by (simp add: ratio_def analysis_row_def q_def)
  have C: "q = round_double (a / b)"
    if "RMS_filtered bicep_stats \<noteq> Fin 0" "RMS_filtered quad_stats = Fin a"
      "RMS_filtered bicep_stats = Fin b" for a b
    using that by (simp add: q_def)
  have D: "\<exists>negative n.
              ratio (analysis_row quad_stats bicep_stats) = Fixed3 negative n
            \<and> cell_value (ratio (analysis_row quad_stats bicep_stats)) =
                Some ((if negative then - 1 else 1) * real n / 1000)
            \<and> \<bar>(if negative then - 1 else 1) * real n / 1000 - x\<bar> \<le> 1 / 2000"
    if "RMS_filtered bicep_stats \<noteq> Fin 0" "q = Fin x" "\<bar>x\<bar> < 10 ^ 21" for x
    using toFixed3_near[OF that(3)] B[OF that(1)] unfolding that(2) by simp
  show ?thesis
    unfolding Let_def q_def[symmetric] using A B C D by blast
qed

theorem ratio_guarded_and_rounded_witness:
  "ratio (analysis_row
       \<lparr>RMS = Fin 1, Mean = Fin 1, Std = Fin 0, Max_stat = Fin 1, Min_stat = Fin 1, Count = 1,
        RMS_filtered = Fin 1, Mean_filtered = Fin 1, Std_filtered = Fin 0, Max_filtered = Fin 1,
        Min_filtered = Fin 1, Count_filtered = 1, Outliers_removed = 0\<rparr>
       \<lparr>RMS = Fin 0, Mean = Fin 0, Std = Fin 0, Max_stat = Fin 0, Min_stat = Fin 0, Count = 0,
        RMS_filtered = Fin 0, Mean_filtered = Fin 0, Std_filtered = Fin 0, Max_filtered = Fin 0,
        Min_filtered = Fin 0, Count_filtered = 0, Outliers_removed = 0\<rparr>) = NA
   \<and> js_div (Fin 2001) (Fin 2000) = Fin (4505851427184181 / 4503599627370496)
   \<and> ratio (analysis_row
       \<lparr>RMS = Fin 2001, Mean = Fin 2001, Std = Fin 0, Max_stat = Fin 2001, Min_stat = Fin 2001, Count = 1,
        RMS_filtered = Fin 2001, Mean_filtered = Fin 2001, Std_filtered = Fin 0, Max_filtered = Fin 2001,
        Min_filtered = Fin 2001, Count_filtered = 1, Outliers_removed = 0\<rparr>
       \<lparr>RMS = Fin 2000, Mean = Fin 2000, Std = Fin 0, Max_stat = Fin 2000, Min_stat = Fin 2000, Count = 1,
        RMS_filtered = Fin 2000, Mean_filtered = Fin 2000, Std_filtered = Fin 0, Max_filtered = Fin 2000,
        Min_filtered = Fin 2000, Count_filtered = 1, Outliers_removed = 0\<rparr>) = Fixed3 False 1000"
proof -
  have q: "js_div (Fin 2001) (Fin 2000) = Fin (4505851427184181 / 4503599627370496)"
    by (simp add: round_double_2001)
  have t: "toFixed3 (Fin (4505851427184181 / 4503599627370496)) = Fixed3 False 1000"
    by simp
  show ?thesis
    using ratio_guarded_and_rounded[of
       "\<lparr>RMS = Fin 1, Mean = Fin 1, Std = Fin 0, Max_stat = Fin 1, Min_stat = Fin 1, Count = 1,
        RMS_filtered = Fin 1, Mean_filtered = Fin 1, Std_filtered = Fin 0, Max_filtered = Fin 1,
        Min_filtered = Fin 1, Count_filtered = 1, Outliers_removed = 0\<rparr>"
       "\<lparr>RMS = Fin 0, Mean = Fin 0, Std = Fin 0, Max_stat = Fin 0, Min_stat = Fin 0, Count = 0,
        RMS_filtered = Fin 0, Mean_filtered = Fin 0, Std_filtered = Fin 0, Max_filtered = Fin 0,
        Min_filtered = Fin 0, Count_filtered = 0, Outliers_removed = 0\<rparr>"]
      ratio_guarded_and_rounded[of
       "\<lparr>RMS = Fin 2001, Mean = Fin 2001, Std = Fin 0, Max_stat = Fin 2001, Min_stat = Fin 2001, Count = 1,
        RMS_filtered = Fin 2001, Mean_filtered = Fin 2001, Std_filtered = Fin 0, Max_filtered = Fin 2001,
        Min_filtered = Fin 2001, Count_filtered = 1, Outliers_removed = 0\<rparr>"
       "\<lparr>RMS = Fin 2000, Mean = Fin 2000, Std = Fin 0, Max_stat = Fin 2000, Min_stat = Fin 2000, Count = 1,
        RMS_filtered = Fin 2000, Mean_filtered = Fin 2000, Std_filtered = Fin 0, Max_filtered = Fin 2000,
        Min_filtered = Fin 2000, Count_filtered = 1, Outliers_removed = 0\<rparr>"]
    unfolding Let_def by (simp add: q t round_double_2001)
qed

text \<open>
  The cell does not hold the quotient itself: for the filtered RMS values 1 and 3 it reads
  0.333, which is not 1 / 3.
\<close>

theorem ratio_not_exact_quotient:
  "bicep_RMS \<lparr>quad_RMS = Fin 1, bicep_RMS = Fin 3, quad_RMS_orig = Fin 1, bicep_RMS_orig = Fin 3\<rparr> \<noteq> Fin 0
   \<and> ratio \<lparr>quad_RMS = Fin 1, bicep_RMS = Fin 3, quad_RMS_orig = Fin 1, bicep_RMS_orig = Fin 3\<rparr> = Fixed3 False 333
   \<and> cell_value (ratio \<lparr>quad_RMS = Fin 1, bicep_RMS = Fin 3, quad_RMS_orig = Fin 1, bicep_RMS_orig = Fin 3\<rparr>) = Some (333 / 1000)
   \<and> (333 / 1000 :: real) \<noteq> 1 / 3"
  by (simp add: ratio_def round_double_third)



text \<open>
  C9. The retained series can be empty when more than twenty samples are trimmed. On
  the column with the cells \<^verbatim>\<open>inf\<close>, \<^verbatim>\<open>-inf\<close> and 1 to 19 the lower percentile
  is \<open>-inf\<close> and the upper one NaN; on the finite column of twenty cells
  \<^verbatim>\<open>-1.5e308\<close> and one cell \<^verbatim>\<open>1.5e308\<close> the difference of the two values
  overflows and the upper percentile is \<open>-inf\<close>. In both cases no sample is retained:
  \<open>Count_filtered\<close> is 0 with \<open>Count\<close> 21, and the filtered mean and RMS divide by
  the zero count and are NaN.
\<close>

theorem trimmed_subset_can_be_empty:
  "(let b = calculate_statistics inf_column True
    in len (to_numeric_dropna inf_column) = 21
     \<and> Count b = 21
     \<and> np_percentile (to_numeric_dropna inf_column) 2.5 = NInf
     \<and> np_percentile (to_numeric_dropna inf_column) 97.5 = NaN
     \<and> filtered_series (to_numeric_dropna inf_column) = Float64 []
     \<and> Count_filtered b = 0
     \<and> Outliers_removed b = 21
     \<and> Mean_filtered b = NaN
     \<and> RMS_filtered b = NaN)
   \<and> (let b = calculate_statistics large_column True
      in len (to_numeric_dropna large_column) = 21
       \<and> Count b = 21
       \<and> np_percentile (to_numeric_dropna large_column) 2.5 = Fin (- sample_1_5e308)
       \<and> np_percentile (to_numeric_dropna large_column) 97.5 = NInf
       \<and> filtered_series (to_numeric_dropna large_column) = Float64 []
       \<and> Count_filtered b = 0
       \<and> Outliers_removed b = 21
       \<and> Mean_filtered b = NaN
       \<and> RMS_filtered b = NaN)"
proof -
  have m: "np_mean (Float64 []) = NaN" "np_mean (squared (Float64 [])) = NaN"
    by (simp_all add: np_mean_def np_sum_def)
  have A: "let b = calculate_statistics inf_column True
    in len (to_numeric_dropna inf_column) = 21
     \<and> Count b = 21
     \<and> np_percentile (to_numeric_dropna inf_column) 2.5 = NInf
     \<and> np_percentile (to_numeric_dropna inf_column) 97.5 = NaN
     \<and> filtered_series (to_numeric_dropna inf_column) = Float64 []
     \<and> Count_filtered b = 0
     \<and> Outliers_removed b = 21
     \<and> Mean_filtered b = NaN
     \<and> RMS_filtered b = NaN"
    unfolding Let_def calculate_statistics_def inf_column_numeric inf_column_filtered
      inf_column_lower inf_column_upper m
    by (simp add: empty_series_def np_sqrt_def)
  have B: "let b = calculate_statistics large_column True
      in len (to_numeric_dropna large_column) = 21
       \<and> Count b = 21
       \<and> np_percentile (to_numeric_dropna large_column) 2.5 = Fin (- sample_1_5e308)
       \<and> np_percentile (to_numeric_dropna large_column) 97.5 = NInf
       \<and> filtered_series (to_numeric_dropna large_column) = Float64 []
       \<and> Count_filtered b = 0
       \<and> Outliers_removed b = 21
       \<and> Mean_filtered b = NaN
       \<and> RMS_filtered b = NaN"
    unfolding Let_def calculate_statistics_def large_column_numeric large_column_filtered
      large_column_lower large_column_upper m
    by (simp add: empty_series_def np_sqrt_def)
  show ?thesis using A B by simp
qed

text \<open>
  C10. Each pass of either loop adds \<open>windowSize = floor (samplingRate * 0.1)\<close> to the
  index. When \<open>windowSize \<ge> 1\<close> the loop ends after exactly
  \<open>ceiling (length limitedData / windowSize)\<close> passes: the loop test holds before each of
  them and fails after the last, and the loop returns the state they produce. The rates
  that \<open>analyze_emg_data\<close> assigns (2000 and 1000) have \<open>windowSize \<ge> 1\<close>, and the
  traces built from them are defined. When \<open>samplingRate < 10\<close> the window size is zero,
  a pass leaves the index where it was, and on a truncated series that is not empty the
  loop does not end.
\<close>

theorem window_loop_iterations:
  "let w = nat \<lfloor>real samplingRate * 0.1\<rfloor>;
       limitedData = js_slice yData 0 (min (length yData) (samplingRate * 10));
       n = nat \<lceil>real (length limitedData) / real w\<rceil>;
       s0 = (0, [], [])
   in fst (integrated_body samplingRate w limitedData s) = fst s + w
    \<and> fst (rms_body samplingRate w limitedData s) = fst s + w
    \<and> (1 \<le> w \<longrightarrow>
         (\<forall>k<n. fst ((integrated_body samplingRate w limitedData ^^ k) s0) < length limitedData)
       \<and> \<not> fst ((integrated_body samplingRate w limitedData ^^ n) s0) < length limitedData
       \<and> integrated_loop samplingRate w limitedData s0 =
           Some ((integrated_body samplingRate w limitedData ^^ n) s0)
       \<and> (\<forall>k<n. fst ((rms_body samplingRate w limitedData ^^ k) s0) < length limitedData)
       \<and> \<not> fst ((rms_body samplingRate w limitedData ^^ n) s0) < length limitedData
       \<and> rms_loop samplingRate w limitedData s0 =
           Some ((rms_body samplingRate w limitedData ^^ n) s0))
    \<and> (samplingRate < 10 \<longrightarrow>
         w = 0
       \<and> (limitedData \<noteq> [] \<longrightarrow>
            integrated_loop samplingRate w limitedData s0 = None
          \<and> rms_loop samplingRate w limitedData s0 = None))
    \<and> 1 \<le> nat \<lfloor>real (sampling_rate_of t) * 0.1\<rfloor>
    \<and> updateIntegratedChart_trace (sampling_rate_of t) yData \<noteq> None
    \<and> updateRMSChart_trace (sampling_rate_of t) yData \<noteq> None"
proof -
  define w where "w = nat \<lfloor>real samplingRate * 0.1\<rfloor>"
  define xs where "xs = js_slice yData 0 (min (length yData) (samplingRate * 10))"
  define n where "n = nat \<lceil>real (length xs) / real w\<rceil>"
  have wd: "w = samplingRate div 10" unfolding w_def by (rule window_size_div)
  have A: "1 \<le> w \<Longrightarrow>
         (\<forall>k<n. fst ((integrated_body samplingRate w xs ^^ k) (0, [], [])) < length xs)
       \<and> \<not> fst ((integrated_body samplingRate w xs ^^ n) (0, [], [])) < length xs
       \<and> integrated_loop samplingRate w xs (0, [], []) =
           Some ((integrated_body samplingRate w xs ^^ n) (0, [], []))
       \<and> (\<forall>k<n. fst ((rms_body samplingRate w xs ^^ k) (0, [], [])) < length xs)
       \<and> \<not> fst ((rms_body samplingRate w xs ^^ n) (0, [], [])) < length xs
       \<and> rms_loop samplingRate w xs (0, [], []) =
           Some ((rms_body samplingRate w xs ^^ n) (0, [], []))"
  proof -
    assume "1 \<le> w"
    then have w: "0 < w" by simp
    have n: "n = (length xs + w - 1) div w" unfolding n_def by (rule ceiling_div_nat[OF w])
    have i1: "\<forall>k<n. fst ((integrated_body samplingRate w xs ^^ k) (0, [], [])) < length xs"
      using iter_in_range[OF w, of _ "length xs"] by (simp add: fst_integrated_iter n)
    have i2: "\<not> fst ((integrated_body samplingRate w xs ^^ n) (0, [], [])) < length xs"
      using iter_out_of_range[OF w, of "length xs"] by (simp add: fst_integrated_iter n)
    have r1: "\<forall>k<n. fst ((rms_body samplingRate w xs ^^ k) (0, [], [])) < length xs"
      using iter_in_range[OF w, of _ "length xs"] by (simp add: fst_rms_iter n)
    have r2: "\<not> fst ((rms_body samplingRate w xs ^^ n) (0, [], [])) < length xs"
      using iter_out_of_range[OF w, of "length xs"] by (simp add: fst_rms_iter n)
    show ?thesis
      using i1 i2 r1 r2 integrated_loop_iter[OF i1 i2] rms_loop_iter[OF r1 r2] by blast
  qed
  have B: "samplingRate < 10 \<Longrightarrow> w = 0 \<and> (xs \<noteq> [] \<longrightarrow>
            integrated_loop samplingRate w xs (0, [], []) = None
          \<and> rms_loop samplingRate w xs (0, [], []) = None)"
    by (simp add: wd integrated_loop_None rms_loop_None)
  have C: "1 \<le> nat \<lfloor>real (sampling_rate_of t) * 0.1\<rfloor>"
    by (simp only: window_size_div) (simp add: sampling_rate_of_def)
  have D: "0 < spec_window_size (default_sampling_rate (sampling_rate_of t))"
    by (simp add: spec_window_size_div default_sampling_rate_def sampling_rate_of_def)
  have E: "updateIntegratedChart_trace (sampling_rate_of t) yData \<noteq> None"
    "updateRMSChart_trace (sampling_rate_of t) yData \<noteq> None"
    unfolding updateIntegratedChart_trace_def updateRMSChart_trace_def
    by (simp_all only: integrated_xy_closed[OF D] rms_xy_closed[OF D]) simp_all
  show ?thesis
    unfolding Let_def w_def[symmetric] xs_def[symmetric] n_def[symmetric]
    using A B C E by (auto simp: fst_integrated_body fst_rms_body)
qed

theorem window_loop_iterations_witness:
  "1 \<le> nat \<lfloor>real 20 * 0.1\<rfloor>
   \<and> integrated_loop 20 2 [3, 4, 5] (0, [], []) =
       Some ((integrated_body 20 2 [3, 4, 5] ^^ 2) (0, [], []))
   \<and> rms_loop 20 2 [3, 4, 5] (0, [], []) = Some ((rms_body 20 2 [3, 4, 5] ^^ 2) (0, [], []))
   \<and> (5 :: nat) < 10
   \<and> js_slice [1 :: real] 0 (min (length [1 :: real]) (5 * 10)) \<noteq> []
   \<and> integrated_loop 5 0 [1] (0, [], []) = None
   \<and> rms_loop 5 0 [1] (0, [], []) = None"
proof -
  have w20: "nat \<lfloor>real 20 * 0.1\<rfloor> = 2" by simp
  have w5: "nat \<lfloor>real 5 * 0.1\<rfloor> = 0" by simp
  have l20: "js_slice [3, 4, 5 :: real] 0 (min (length [3, 4, 5 :: real]) (20 * 10)) = [3, 4, 5]"
    by (simp add: js_slice_def)
  have l5: "js_slice [1 :: real] 0 (min (length [1 :: real]) (5 * 10)) = [1]"
    by (simp add: js_slice_def)
  have n: "nat \<lceil>real (length [3, 4, 5 :: real]) / real 2\<rceil> = 2" by simp
  show ?thesis
    using window_loop_iterations[of 20 "[3, 4, 5]"] window_loop_iterations[of 5 "[1]"]
    unfolding Let_def w20 w5 l20 l5 n by simp
qed

end
